theory Spec2Isabelle
  imports Main
begin

section \<open>file_writers.py: the NpyWriter\<close>

text \<open>
  The exceptions \<^verbatim>\<open>NpyWriter\<close> raises itself, and \<open>ExternalError\<close> for whatever the
  libraries it calls (\<^verbatim>\<open>np.save\<close>, \<^verbatim>\<open>filestore.commands\<close>) raise.
\<close>

datatype exn = IOError | ValueError | RuntimeError | ExternalError string

text \<open>The \<^verbatim>\<open>custom\<close> dictionary, as the list of its items.\<close>

type_synonym custom = "(string \<times> string) list"

text \<open>
  The instance attributes \<^verbatim>\<open>_fpath\<close>, \<^verbatim>\<open>_f_custom\<close> and \<^verbatim>\<open>_writable\<close>.
\<close>

record NpyWriter =
  fpath :: string
  f_custom :: custom
  writable :: bool

text \<open>
  What the writer calls outside this file, over a state \<open>'w\<close> of the outside world (the
  filesystem and the FileStore database): \<^verbatim>\<open>os.path.exists\<close>, \<^verbatim>\<open>np.save\<close> (with the
  conversion \<^verbatim>\<open>np.asanyarray\<close>), \<^verbatim>\<open>uuid.uuid1\<close>, \<^verbatim>\<open>fsc.insert_resource\<close> (which
  returns the resource document \<open>'fb\<close>) and \<^verbatim>\<open>fsc.insert_nugget\<close> (which returns the
  event document, of which only \<^verbatim>\<open>event_id\<close> is read). Each of the three writing calls
  may raise.
\<close>

record ('w, 'd, 'fb) externals =
  op_exists :: "'w \<Rightarrow> string \<Rightarrow> bool"
  np_save :: "'w \<Rightarrow> string \<Rightarrow> 'd \<Rightarrow> exn + 'w"
  uuid1 :: "'w \<Rightarrow> string \<times> 'w"
  fsc_insert_resource :: "'w \<Rightarrow> string \<Rightarrow> string \<Rightarrow> custom \<Rightarrow> exn + ('fb \<times> 'w)"
  fsc_insert_nugget :: "'w \<Rightarrow> 'fb \<Rightarrow> string \<Rightarrow> exn + (string \<times> 'w)"

definition SPEC_NAME :: string where
  "SPEC_NAME = ''npy''"

text \<open>
  \<^verbatim>\<open>NpyWriter.__init__(fpath, custom=None)\<close>: refuses an existing path, then any key of
  \<^verbatim>\<open>custom\<close> other than \<^verbatim>\<open>'mmap_mode'\<close>.
\<close>

definition NpyWriter_init ::
  "('w, 'd, 'fb) externals \<Rightarrow> 'w \<Rightarrow> string \<Rightarrow> custom option \<Rightarrow> exn + NpyWriter" where
  "NpyWriter_init X w p cust =
     (if op_exists X w p then Inl IOError
      else
        let c = (case cust of None \<Rightarrow> [] | Some c' \<Rightarrow> c') in
        if list_ex (\<lambda>k. k \<noteq> ''mmap_mode'') (map fst c) then Inl ValueError
        else Inr \<lparr>fpath = p, f_custom = c, writable = True\<rparr>)"

text \<open>Python's truth value of the \<^verbatim>\<open>custom\<close> argument of \<^verbatim>\<open>add_data\<close>.\<close>

fun truthy :: "custom option \<Rightarrow> bool" where
  "truthy None = False"
| "truthy (Some []) = False"
| "truthy (Some (x # xs)) = True"

text \<open>
  \<^verbatim>\<open>NpyWriter.add_data(data, uid=None, custom=None)\<close>. The result is what the call
  returns or raises, the writer after the call and the world after the call.
\<close>

definition add_data ::
  "('w, 'd, 'fb) externals \<Rightarrow> NpyWriter \<Rightarrow> 'w \<Rightarrow> 'd \<Rightarrow> string option \<Rightarrow> custom option
     \<Rightarrow> (exn + string) \<times> NpyWriter \<times> 'w" where
  "add_data X self w data uid cust =
     (if \<not> writable self then (Inl RuntimeError, self, w)
      else if truthy cust then (Inl ValueError, self, w)
      else if op_exists X w (fpath self) then (Inl IOError, self, w)
      else
        let (uid', w1) = (case uid of None \<Rightarrow> uuid1 X w | Some u \<Rightarrow> (u, w)) in
        case np_save X w1 (fpath self) data of
          Inl e \<Rightarrow> (Inl e, self, w1)
        | Inr w2 \<Rightarrow>
            let self' = self\<lparr>writable := False\<rparr> in
            (case fsc_insert_resource X w2 SPEC_NAME (fpath self) (f_custom self) of
               Inl e \<Rightarrow> (Inl e, self', w2)
             | Inr (fb, w3) \<Rightarrow>
                 (case fsc_insert_nugget X w3 fb uid' of
                    Inl e \<Rightarrow> (Inl e, self', w3)
                  | Inr (event_id, w4) \<Rightarrow> (Inr event_id, self', w4))))"

subsection \<open>An outside world in memory\<close>

text \<open>
  A small world to run the writer in: the files on disk with their contents, and the
  resource and datum documents registered so far.
\<close>

record mem_world =
  disk :: "(string \<times> nat list) list"
  resource_docs :: "(string \<times> string \<times> custom) list"
  datum_docs :: "(string \<times> string) list"
  uuid_counter :: nat

text \<open>Python's \<^verbatim>\<open>s.endswith(suf)\<close>.\<close>

definition endswith :: "string \<Rightarrow> string \<Rightarrow> bool" where
  "endswith s suf \<longleftrightarrow> length suf \<le> length s \<and> drop (length s - length suf) s = suf"

text \<open>
  The file \<^verbatim>\<open>np.save(file, arr)\<close> writes when \<^verbatim>\<open>file\<close> is a string: numpy appends
  \<^verbatim>\<open>.npy\<close> to a name that does not end with it.
\<close>

definition npy_target :: "string \<Rightarrow> string" where
  "npy_target p = (if endswith p ''.npy'' then p else p @ ''.npy'')"

text \<open>
  \<^verbatim>\<open>os.path.exists\<close> looks the path itself up; \<^verbatim>\<open>np.save\<close> writes the file
  \<open>npy_target\<close> names, replacing what was there.
\<close>

definition mem_externals :: "(mem_world, nat list, string) externals" where
  "mem_externals =
     \<lparr>op_exists = (\<lambda>w p. p \<in> fst ` set (disk w)),
      np_save = (\<lambda>w p d.
         Inr (w\<lparr>disk := (npy_target p, d) # filter (\<lambda>f. fst f \<noteq> npy_target p) (disk w)\<rparr>)),
      uuid1 = (\<lambda>w. (replicate (Suc (uuid_counter w)) CHR ''u'',
                     w\<lparr>uuid_counter := Suc (uuid_counter w)\<rparr>)),
      fsc_insert_resource = (\<lambda>w sp p c.
         Inr (p, w\<lparr>resource_docs := (sp, p, c) # resource_docs w\<rparr>)),
      fsc_insert_nugget = (\<lambda>w fb u. Inr (u, w\<lparr>datum_docs := (fb, u) # datum_docs w\<rparr>))\<rparr>"

definition empty_world :: mem_world where
  "empty_world = \<lparr>disk = [], resource_docs = [], datum_docs = [], uuid_counter = 0\<rparr>"

section \<open>Paths as the tests and the specification read them\<close>

text \<open>
  Python's \<^verbatim>\<open>p.split('/')\<close>: the pieces of a path between its separators, empty
  pieces included. The result is never empty, so the first branch of the \<open>case\<close> is
  never taken.
\<close>

fun split_sep :: "string \<Rightarrow> string list" where
  "split_sep [] = [[]]"
| "split_sep (c # cs) =
     (if c = CHR ''/'' then [] # split_sep cs
      else (case split_sep cs of [] \<Rightarrow> [[c]] | w # ws \<Rightarrow> (c # w) # ws))"

text \<open>
  Modelled from the spec: the Path Model is in \<^verbatim>\<open>filestore/fs.py\<close>, which is not among
  the sources. The path segments of section 4.1 are the non-empty pieces of a path.
\<close>

definition segments :: "string \<Rightarrow> string list" where
  "segments p = filter (\<lambda>s. s \<noteq> []) (split_sep p)"

text \<open>
  Modelled from the spec: segments are written back with one separator between them
  (\<^verbatim>\<open>"0/1/2/3/4"\<close> in the scenarios of section 8, \<^verbatim>\<open>num_paths\<close> in the tests).
\<close>

fun join_segs :: "string list \<Rightarrow> string" where
  "join_segs [] = []"
| "join_segs [s] = s"
| "join_segs (s # t # ss) = s @ CHR ''/'' # join_segs (t # ss)"

text \<open>Whether a path starts at the filesystem root (\<^verbatim>\<open>os.path.isabs\<close>).\<close>

definition is_abs :: "string \<Rightarrow> bool" where
  "is_abs p = (case p of [] \<Rightarrow> False | c # cs \<Rightarrow> c = CHR ''/'')"

text \<open>
  Modelled from the spec: a root is written as its segments, after the leading separator
  when the location is absolute (\<^verbatim>\<open>root="/0/1"\<close>, and \<^verbatim>\<open>root="/"\<close> with no segment, in
  section 8).
\<close>

definition render_root :: "bool \<Rightarrow> string list \<Rightarrow> string" where
  "render_root a ss = (if a then CHR ''/'' # join_segs ss else join_segs ss)"

text \<open>
  \<^verbatim>\<open>os.path.join(a, b)\<close> of the tests (POSIX): an absolute \<open>b\<close> replaces \<open>a\<close>; otherwise
  \<open>b\<close> is appended, after a separator unless \<open>a\<close> is empty or ends with one.
\<close>

definition path_join :: "string \<Rightarrow> string \<Rightarrow> string" where
  "path_join a b =
     (if is_abs b then b
      else if a = [] \<or> last a = CHR ''/'' then a @ b
      else a @ CHR ''/'' # b)"

text \<open>A segment as \<open>segments\<close> yields it: not empty, and without a separator.\<close>

definition seg_ok :: "string \<Rightarrow> bool" where
  "seg_ok s = (s \<noteq> [] \<and> CHR ''/'' \<notin> set s)"

section \<open>The resource store and the root shift\<close>

text \<open>The values of a keyword dictionary (\<^verbatim>\<open>{'a': 'fizz', 'b': 5}\<close> in the tests).\<close>

datatype kwval = KStr string | KInt int

type_synonym kwargs = "(string \<times> kwval) list"

text \<open>
  Modelled from the spec: the resource document of section 3; the class that builds it
  (\<^verbatim>\<open>filestore.fs.FileStoreMoving\<close>) is not among the sources.
\<close>

record resource =
  uid :: string
  spec :: string
  root :: string
  resource_path :: string
  resource_kwargs :: kwargs

text \<open>Modelled from the spec: the history entry of section 3, one per mutation.\<close>

record history_entry =
  resource_uid :: string
  time :: nat
  cmd :: string
  cmd_kwargs :: kwargs
  old :: resource
  new :: resource

text \<open>
  Modelled from the spec: the Resource Store (the current record of each uid) and the
  append-only History Ledger of section 2, whose code is not among the sources.
\<close>

record store =
  resources :: "string \<rightharpoonup> resource"
  history :: "history_entry list"

text \<open>
  \<open>OutOfRangeShift\<close> and \<open>UnknownResource\<close> are conditions of section 7 (the first is a
  \<^verbatim>\<open>RuntimeError\<close> in \<^verbatim>\<open>test_over_step\<close>); the specification names no condition for the
  shift by zero that section 4.2 has validated away, here \<open>ZeroShift\<close>.
\<close>

datatype shift_error = ZeroShift | UnknownResource | OutOfRangeShift

text \<open>
  Modelled from the spec: \<^verbatim>\<open>shift\<close> of the Path Model (section 4.1), absent from the
  sources. A positive \<open>d\<close> moves the first \<open>d\<close> segments of the resource path to the end of
  the root; a negative \<open>d\<close> moves the last \<open>|d|\<close> segments of the root to the front of the
  resource path; more segments than the side has is \<open>OutOfRangeShift\<close>. The new root
  starts with a separator exactly when the joined location did, so that an absolute
  location stays absolute whichever of the two strings carried the leading separator.
\<close>

definition shift :: "string \<Rightarrow> string \<Rightarrow> int \<Rightarrow> shift_error + string \<times> string" where
  "shift rt rp d =
     (let R = segments rt; P = segments rp; a = is_abs (path_join rt rp) in
      if 0 < d then
        (if length P < nat d then Inl OutOfRangeShift
         else Inr (render_root a (R @ take (nat d) P), join_segs (drop (nat d) P)))
      else
        (if length R < nat (- d) then Inl OutOfRangeShift
         else
           let k = length R - nat (- d) in
           Inr (render_root a (take k R), join_segs (drop k R @ P))))"

text \<open>
  Modelled from the spec: \<^verbatim>\<open>shift_root\<close> of the Resource Store (section 4.2, steps 1 to
  5), absent from the sources: validate \<open>d \<noteq> 0\<close>, compute the new pair, copy the resource
  with it, append the history entry, make the copy the current record of the uid. \<open>now\<close>
  is the reading of the clock the entry is stamped with. A failure leaves the store as
  it was.

  The record that is shifted, and that the entry keeps as \<open>old\<close>, is the store's current
  record of the argument's uid: \<^verbatim>\<open>test_history\<close> passes the same first snapshot to five
  calls in a row and requires each entry's \<open>old\<close> to be the previous entry's \<open>new\<close>. A uid
  the store does not hold is \<open>UnknownResource\<close>. So a call with a snapshot that is no
  longer current succeeds on the stored record, as the test requires, where section 7
  would have it refused.
\<close>

definition shift_root ::
  "store \<Rightarrow> nat \<Rightarrow> resource \<Rightarrow> int \<Rightarrow> (shift_error + resource \<times> history_entry) \<times> store" where
  "shift_root st now r d =
     (if d = 0 then (Inl ZeroShift, st)
      else
        case resources st (uid r) of
          None \<Rightarrow> (Inl UnknownResource, st)
        | Some cur \<Rightarrow>
            (case shift (root cur) (resource_path cur) d of
               Inl e \<Rightarrow> (Inl e, st)
             | Inr (rt', rp') \<Rightarrow>
                 let new_resource = cur\<lparr>root := rt', resource_path := rp'\<rparr>;
                     entry = \<lparr>resource_uid = uid r, time = now, cmd = ''shift_root'',
                              cmd_kwargs = [(''shift'', KInt d)], old = cur,
                              new = new_resource\<rparr>
                 in (Inr (new_resource, entry),
                     st\<lparr>resources := (resources st)(uid r \<mapsto> new_resource),
                        history := history st @ [entry]\<rparr>)))"

text \<open>
  The resource the tests insert, \<^verbatim>\<open>insert_resource('root-test', rpath, {'a': 'fizz',
  'b': 5}, root=root)\<close>, and the store right after: the record under its uid, and no
  history entry yet.
\<close>

definition test_resource :: "string \<Rightarrow> string \<Rightarrow> resource" where
  "test_resource rt rp =
     \<lparr>uid = ''uid-1'', spec = ''root-test'', root = rt, resource_path = rp,
      resource_kwargs = [(''a'', KStr ''fizz''), (''b'', KInt 5)]\<rparr>"

definition test_store :: "string \<Rightarrow> string \<Rightarrow> store" where
  "test_store rt rp = \<lparr>resources = [''uid-1'' \<mapsto> test_resource rt rp], history = []\<rparr>"

section \<open>Properties of the NpyWriter\<close>

lemma add_data_not_writable:
  "\<not> writable self \<Longrightarrow> add_data X self w d u c = (Inl RuntimeError, self, w)"
  by (simp add: add_data_def)

lemma add_data_success_writable:
  assumes "add_data X self w d u c = (Inr eid, self', w')"
  shows "self' = self\<lparr>writable := False\<rparr>"
  using assms
  by (auto simp: add_data_def Let_def split: if_splits prod.splits sum.splits option.splits)

text \<open>
  What the two guards do, whatever \<^verbatim>\<open>np.save\<close> is: a file at the string \<open>fpath\<close> itself
  makes \<^verbatim>\<open>__init__\<close> raise \<open>IOError\<close>, and makes \<open>add_data\<close> raise and leave the writer and
  the world as they were. Which file \<^verbatim>\<open>np.save\<close> then writes is not their concern.
\<close>

lemma guards_on_fpath:
  "(op_exists X w p \<longrightarrow> NpyWriter_init X w p cust = Inl IOError) \<and>
   (op_exists X w (fpath self) \<longrightarrow>
      add_data X self w d u c =
        (Inl (if \<not> writable self then RuntimeError
              else if truthy c then ValueError else IOError), self, w))"
  by (simp add: NpyWriter_init_def add_data_def)

lemma npy_target_a: "npy_target ''a'' = ''a.npy''"
  by (simp add: npy_target_def endswith_def)

lemma npy_target_a_npy: "npy_target ''a.npy'' = ''a.npy''"
  by (simp add: npy_target_def endswith_def)

text \<open>
  C9 does not hold of the code. With a file \<^verbatim>\<open>a.npy\<close> on disk, \<^verbatim>\<open>NpyWriter('a')\<close> is
  constructed without error, since both guards look for a file named \<^verbatim>\<open>a\<close>, and
  \<^verbatim>\<open>add_data\<close> then succeeds and replaces the content of \<^verbatim>\<open>a.npy\<close>, since \<^verbatim>\<open>np.save\<close>
  appends the suffix: an occupied path is overwritten and no error is raised.
\<close>

theorem NpyWriter_overwrites_occupied_path:
  "op_exists mem_externals (empty_world\<lparr>disk := [(''a.npy'', [1, 2])]\<rparr>) ''a.npy'' \<and>
   NpyWriter_init mem_externals (empty_world\<lparr>disk := [(''a.npy'', [1, 2])]\<rparr>) ''a'' None
     = Inr \<lparr>fpath = ''a'', f_custom = [], writable = True\<rparr> \<and>
   add_data mem_externals \<lparr>fpath = ''a'', f_custom = [], writable = True\<rparr>
       (empty_world\<lparr>disk := [(''a.npy'', [1, 2])]\<rparr>) [7] None None
     = (Inr ''u'', \<lparr>fpath = ''a'', f_custom = [], writable = False\<rparr>,
        \<lparr>disk = [(''a.npy'', [7])], resource_docs = [(''npy'', ''a'', [])],
         datum_docs = [(''a'', ''u'')], uuid_counter = 1\<rparr>)"
  by (simp add: NpyWriter_init_def add_data_def mem_externals_def empty_world_def
      SPEC_NAME_def npy_target_a)

text \<open>
  C10. A writer is good for one call: a successful \<open>add_data\<close> returns the writer with
  \<open>writable\<close> cleared, and every later \<open>add_data\<close> on that writer, whatever its arguments
  and whatever the world then is, raises \<open>RuntimeError\<close> and leaves the writer and the
  world as they were (no file saved, no resource or datum registered).
\<close>

theorem NpyWriter_single_use:
  assumes "add_data X self w d u c = (Inr eid, self', w')"
  shows "\<not> writable self' \<and>
         (\<forall>w2 d2 u2 c2. add_data X self' w2 d2 u2 c2 = (Inl RuntimeError, self', w2))"
proof -
  have "self' = self\<lparr>writable := False\<rparr>"
    using assms by (rule add_data_success_writable)
  then have nw: "\<not> writable self'" by simp
  then show ?thesis by (simp add: add_data_not_writable)
qed

theorem NpyWriter_single_use_witness:
  "add_data mem_externals \<lparr>fpath = ''a.npy'', f_custom = [], writable = True\<rparr>
       empty_world [7] None None
     = (Inr ''u'', \<lparr>fpath = ''a.npy'', f_custom = [], writable = False\<rparr>,
        \<lparr>disk = [(''a.npy'', [7])], resource_docs = [(''npy'', ''a.npy'', [])],
         datum_docs = [(''a.npy'', ''u'')], uuid_counter = 1\<rparr>) \<and>
   add_data mem_externals \<lparr>fpath = ''a.npy'', f_custom = [], writable = False\<rparr>
       empty_world [8] None None
     = (Inl RuntimeError, \<lparr>fpath = ''a.npy'', f_custom = [], writable = False\<rparr>,
        empty_world)"
proof -
  have run: "add_data mem_externals \<lparr>fpath = ''a.npy'', f_custom = [], writable = True\<rparr>
       empty_world [7] None None
     = (Inr ''u'', \<lparr>fpath = ''a.npy'', f_custom = [], writable = False\<rparr>,
        \<lparr>disk = [(''a.npy'', [7])], resource_docs = [(''npy'', ''a.npy'', [])],
         datum_docs = [(''a.npy'', ''u'')], uuid_counter = 1\<rparr>)"
    by (simp add: add_data_def mem_externals_def empty_world_def SPEC_NAME_def
        npy_target_a_npy)
  from NpyWriter_single_use [OF run] show ?thesis using run by simp
qed

section \<open>Splitting and joining paths\<close>

lemma split_sep_ne [simp]: "split_sep s \<noteq> []"
  by (induction s) (auto split: list.splits)

lemma split_sep_append: "split_sep (a @ CHR ''/'' # b) = split_sep a @ split_sep b"
  by (induction a) (auto split: list.splits)

lemma split_sep_no_sep: "CHR ''/'' \<notin> set w \<Longrightarrow> split_sep w = [w]"
  by (induction w) auto

lemma split_sep_parts: "w \<in> set (split_sep s) \<Longrightarrow> CHR ''/'' \<notin> set w"
proof (induction s arbitrary: w)
  case Nil
  then show ?case by simp
next
  case (Cons c cs)
  then show ?case
    by (cases "split_sep cs") (auto split: if_splits)
qed

lemma segments_ok: "s \<in> set (segments p) \<Longrightarrow> seg_ok s"
  by (auto simp: segments_def seg_ok_def dest: split_sep_parts)

lemma split_sep_join_segs:
  "\<forall>s\<in>set (x # xs). CHR ''/'' \<notin> set s \<Longrightarrow> split_sep (join_segs (x # xs)) = x # xs"
proof (induction xs arbitrary: x)
  case Nil
  then show ?case by (simp add: split_sep_no_sep)
next
  case (Cons y ys)
  then show ?case by (simp add: split_sep_append split_sep_no_sep)
qed

lemma segments_join_segs:
  assumes ok: "\<forall>s\<in>set xs. seg_ok s"
  shows "segments (join_segs xs) = xs"
proof (cases xs)
  case Nil
  then show ?thesis by (simp add: segments_def)
next
  case (Cons y ys)
  have "split_sep (join_segs (y # ys)) = y # ys"
    using ok Cons by (intro split_sep_join_segs) (auto simp: seg_ok_def)
  then show ?thesis
    using ok Cons by (auto simp: segments_def seg_ok_def filter_id_conv)
qed

lemma segments_sep_Cons: "segments (CHR ''/'' # s) = segments s"
  by (simp add: segments_def)

lemma segments_render_root:
  "\<forall>s\<in>set xs. seg_ok s \<Longrightarrow> segments (render_root a xs) = xs"
  by (simp add: render_root_def segments_sep_Cons segments_join_segs)

section \<open>Properties of the root shift\<close>

lemma shift_Inr:
  assumes "shift rt rp d = Inr (rt', rp')"
  shows "\<exists>R' P'. rt' = render_root (is_abs (path_join rt rp)) R' \<and> rp' = join_segs P' \<and>
           R' @ P' = segments rt @ segments rp \<and>
           (0 < d \<longrightarrow> R' = segments rt @ take (nat d) (segments rp)
                      \<and> P' = drop (nat d) (segments rp)) \<and>
           (\<not> 0 < d \<longrightarrow> R' = take (length (segments rt) - nat (- d)) (segments rt)
                      \<and> P' = drop (length (segments rt) - nat (- d)) (segments rt)
                             @ segments rp)"
  using assms by (auto simp: shift_def Let_def split: if_splits)

lemma shift_in_range:
  assumes "0 < d \<longrightarrow> nat d \<le> length (segments rp)"
      and "d < 0 \<longrightarrow> nat (- d) \<le> length (segments rt)"
  shows "\<exists>rt' rp'. shift rt rp d = Inr (rt', rp')"
  using assms by (auto simp: shift_def Let_def)

text \<open>
  The two cases the lookup decides. A resource the store does not hold is refused, and
  nothing is written:
\<close>

lemma shift_root_unknown:
  "d \<noteq> 0 \<Longrightarrow> resources st (uid r) = None \<Longrightarrow> shift_root st now r d = (Inl UnknownResource, st)"
  by (simp add: shift_root_def)

text \<open>
  and the second call of \<^verbatim>\<open>test_history\<close>, which passes the first snapshot again, shifts
  the stored record: the entry's \<open>old\<close> is the first call's result.
\<close>

lemma shift_root_stale_snapshot:
  "\<exists>e1 st1. shift_root (test_store ''/'' ''0/1/2'') 1 (test_resource ''/'' ''0/1/2'') 1
               = (Inr (test_resource ''/0'' ''1/2'', e1), st1) \<and>
     (\<exists>e2 st2. shift_root st1 2 (test_resource ''/'' ''0/1/2'') 1
               = (Inr (test_resource ''/0/1'' ''2'', e2), st2) \<and>
        old e2 = test_resource ''/0'' ''1/2'' \<and> new e1 = old e2 \<and>
        history st2 = [e1, e2])"
  by (simp add: shift_root_def shift_def Let_def test_resource_def test_store_def
      segments_def render_root_def is_abs_def path_join_def)

text \<open>
  C5. For every resource that is the store's current record and every nonzero delta in
  range, \<open>shift_root\<close> succeeds and moves exactly \<open>|d|\<close> segments across the boundary: for
  \<open>d > 0\<close> the first \<open>d\<close> segments of the resource path are appended to the root and
  removed from the front of the resource path; for \<open>d < 0\<close> the last \<open>|d|\<close> segments of
  the root are removed and put in front of the resource path. The new root is its
  segments written after a leading separator exactly when the old location was
  absolute, and the new resource path is its segments written with single separators.
  In particular, root \<^verbatim>\<open>/\<close> with resource path \<^verbatim>\<open>0/1/2/3/4\<close> shifted by \<open>2\<close> gives
  \<^verbatim>\<open>/0/1\<close> and \<^verbatim>\<open>2/3/4\<close>, and that result shifted by \<open>-1\<close> gives \<^verbatim>\<open>/0\<close> and
  \<^verbatim>\<open>1/2/3/4\<close>.
\<close>

theorem shift_root_moves_segments:
  assumes cur: "resources st (uid r) = Some r"
      and nz: "d \<noteq> 0"
      and pos: "0 < d \<longrightarrow> nat d \<le> length (segments (resource_path r))"
      and neg: "d < 0 \<longrightarrow> nat (- d) \<le> length (segments (root r))"
  shows "(\<exists>r' e st'. shift_root st now r d = (Inr (r', e), st') \<and>
            (0 < d \<longrightarrow>
               segments (root r')
                 = segments (root r) @ take (nat d) (segments (resource_path r)) \<and>
               segments (resource_path r') = drop (nat d) (segments (resource_path r))) \<and>
            (d < 0 \<longrightarrow>
               segments (root r')
                 = take (length (segments (root r)) - nat (- d)) (segments (root r)) \<and>
               segments (resource_path r')
                 = drop (length (segments (root r)) - nat (- d)) (segments (root r))
                   @ segments (resource_path r)) \<and>
            root r' = render_root (is_abs (path_join (root r) (resource_path r)))
                        (segments (root r')) \<and>
            resource_path r' = join_segs (segments (resource_path r'))) \<and>
         (\<exists>e1 st1. shift_root (test_store ''/'' ''0/1/2/3/4'') now
                      (test_resource ''/'' ''0/1/2/3/4'') 2
                      = (Inr (test_resource ''/0/1'' ''2/3/4'', e1), st1) \<and>
            (\<exists>e2 st2. shift_root st1 now (test_resource ''/0/1'' ''2/3/4'') (- 1)
                      = (Inr (test_resource ''/0'' ''1/2/3/4'', e2), st2)))"
proof (intro conjI)
  let ?R = "segments (root r)" and ?P = "segments (resource_path r)"
  let ?a = "is_abs (path_join (root r) (resource_path r))"
  from shift_in_range [OF pos neg] obtain rt' rp' where
    sh: "shift (root r) (resource_path r) d = Inr (rt', rp')" by blast
  from shift_Inr [OF sh] obtain R' P' where
    rt': "rt' = render_root ?a R'" and rp': "rp' = join_segs P'" and
    app: "R' @ P' = ?R @ ?P" and
    p: "0 < d \<longrightarrow> R' = ?R @ take (nat d) ?P \<and> P' = drop (nat d) ?P" and
    n: "\<not> 0 < d \<longrightarrow> R' = take (length ?R - nat (- d)) ?R
                      \<and> P' = drop (length ?R - nat (- d)) ?R @ ?P"
    by blast
  have "\<forall>s\<in>set (R' @ P'). seg_ok s"
    unfolding app by (auto dest: segments_ok)
  then have okR: "\<forall>s\<in>set R'. seg_ok s" and okP: "\<forall>s\<in>set P'. seg_ok s" by auto
  have sR: "segments rt' = R'" unfolding rt' using okR by (rule segments_render_root)
  have sP: "segments rp' = P'" unfolding rp' using okP by (rule segments_join_segs)
  let ?r' = "r\<lparr>root := rt', resource_path := rp'\<rparr>"
  have run: "\<exists>e st'. shift_root st now r d = (Inr (?r', e), st')"
    using nz sh cur by (simp add: shift_root_def Let_def)
  have segs: "segments (root ?r') = R'" "segments (resource_path ?r') = P'"
    using sR sP by simp_all
  have strs: "root ?r' = render_root ?a (segments (root ?r'))"
             "resource_path ?r' = join_segs (segments (resource_path ?r'))"
    using sR sP rt' rp' by simp_all
  have moved: "(0 < d \<longrightarrow> segments (root ?r') = ?R @ take (nat d) ?P \<and>
                          segments (resource_path ?r') = drop (nat d) ?P) \<and>
               (d < 0 \<longrightarrow> segments (root ?r') = take (length ?R - nat (- d)) ?R \<and>
                          segments (resource_path ?r') = drop (length ?R - nat (- d)) ?R @ ?P)"
    using segs p n by auto
  from run obtain e st' where "shift_root st now r d = (Inr (?r', e), st')" by blast
  with moved strs
  show "\<exists>r' e st'. shift_root st now r d = (Inr (r', e), st') \<and>
            (0 < d \<longrightarrow>
               segments (root r') = ?R @ take (nat d) ?P \<and>
               segments (resource_path r') = drop (nat d) ?P) \<and>
            (d < 0 \<longrightarrow>
               segments (root r') = take (length ?R - nat (- d)) ?R \<and>
               segments (resource_path r') = drop (length ?R - nat (- d)) ?R @ ?P) \<and>
            root r' = render_root ?a (segments (root r')) \<and>
            resource_path r' = join_segs (segments (resource_path r'))"
    by blast
next
  show "\<exists>e1 st1. shift_root (test_store ''/'' ''0/1/2/3/4'') now
                      (test_resource ''/'' ''0/1/2/3/4'') 2
                      = (Inr (test_resource ''/0/1'' ''2/3/4'', e1), st1) \<and>
            (\<exists>e2 st2. shift_root st1 now (test_resource ''/0/1'' ''2/3/4'') (- 1)
                      = (Inr (test_resource ''/0'' ''1/2/3/4'', e2), st2))"
    by (simp add: shift_root_def shift_def Let_def test_resource_def test_store_def
        segments_def render_root_def is_abs_def path_join_def)
qed

theorem shift_root_moves_segments_witness:
  "resources (test_store ''/c/a/b'' ''d'') (uid (test_resource ''/c/a/b'' ''d''))
     = Some (test_resource ''/c/a/b'' ''d'') \<and>
   (- 2 :: int) \<noteq> 0 \<and> nat (- (- 2)) \<le> length (segments ''/c/a/b'') \<and>
   (\<exists>r' e st'. shift_root (test_store ''/c/a/b'' ''d'') 7 (test_resource ''/c/a/b'' ''d'') (- 2)
                 = (Inr (r', e), st') \<and>
      segments (root r') = [''c''] \<and> segments (resource_path r') = [''a'', ''b'', ''d''] \<and>
      root r' = ''/c'' \<and> resource_path r' = ''a/b/d'')"
proof -
  have c: "resources (test_store ''/c/a/b'' ''d'') (uid (test_resource ''/c/a/b'' ''d''))
             = Some (test_resource ''/c/a/b'' ''d'')"
    by (simp add: test_store_def test_resource_def)
  have h: "nat (- (- 2)) \<le> length (segments (root (test_resource ''/c/a/b'' ''d'')))"
    by (simp add: test_resource_def segments_def)
  have s: "segments (root (test_resource ''/c/a/b'' ''d'')) = [''c'', ''a'', ''b'']"
          "segments (resource_path (test_resource ''/c/a/b'' ''d'')) = [''d'']"
    by (simp_all add: test_resource_def segments_def)
  have g: "segments ''/c/a/b'' = [''c'', ''a'', ''b'']"
    by (simp add: segments_def)
  have a: "is_abs (path_join (root (test_resource ''/c/a/b'' ''d''))
                     (resource_path (test_resource ''/c/a/b'' ''d'')))"
    by (simp add: test_resource_def path_join_def is_abs_def)
  from shift_root_moves_segments
         [of "test_store ''/c/a/b'' ''d''" "test_resource ''/c/a/b'' ''d''" "- 2" 7]
  show ?thesis using c h s g a by (auto simp: render_root_def)
qed

end
